theory Spec2Isabelle
  imports Complex_Main
begin

section \<open>Texts\<close>

text \<open>
  A Python \<open>str\<close> is modelled as a \<open>string\<close> holding the UTF-8 encoding of the text, so
  that every message of the source is representable and concatenation is \<open>@\<close>.  The
  accented letters of the Portuguese messages are written as their two UTF-8 bytes.
\<close>

definition a_tilde :: string where "a_tilde = [CHR 0xC3, CHR 0xA3]"
definition c_cedil :: string where "c_cedil = [CHR 0xC3, CHR 0xA7]"
definition e_acute :: string where "e_acute = [CHR 0xC3, CHR 0xA9]"
definition i_acute :: string where "i_acute = [CHR 0xC3, CHR 0xAD]"
definition o_acute :: string where "o_acute = [CHR 0xC3, CHR 0xB3]"
definition U_acute :: string where "U_acute = [CHR 0xC3, CHR 0x9A]"
definition arrow :: string where "arrow = [CHR 0xE2, CHR 0x86, CHR 0x92]"

text \<open>The words that recur in the messages.\<close>

definition nao :: string where "nao = ''n'' @ a_tilde @ ''o''"
definition conversao :: string where "conversao = ''convers'' @ a_tilde @ ''o''"
definition Conversao :: string where "Conversao = ''Convers'' @ a_tilde @ ''o''"
definition proximo_metodo :: string where
  "proximo_metodo = ''pr'' @ o_acute @ ''ximo m'' @ e_acute @ ''todo''"

text \<open>
  \<open>str.lower()\<close> and \<open>str.upper()\<close>, on the ASCII letters.  This is Python's result on every
  text whose cased letters are ASCII; format names, extensions and MIME types are such texts.
\<close>

definition upper_letters :: string where "upper_letters = ''ABCDEFGHIJKLMNOPQRSTUVWXYZ''"
definition lower_letters :: string where "lower_letters = ''abcdefghijklmnopqrstuvwxyz''"

definition lower_char :: "char \<Rightarrow> char" where
  "lower_char c = (case map_of (zip upper_letters lower_letters) c of Some d \<Rightarrow> d | None \<Rightarrow> c)"

definition upper_char :: "char \<Rightarrow> char" where
  "upper_char c = (case map_of (zip lower_letters upper_letters) c of Some d \<Rightarrow> d | None \<Rightarrow> c)"

definition lower :: "string \<Rightarrow> string" where
  "lower s = map lower_char s"

definition upper :: "string \<Rightarrow> string" where
  "upper s = map upper_char s"

text \<open>\<open>s.lstrip('.')\<close>\<close>

definition lstrip_dot :: "string \<Rightarrow> string" where
  "lstrip_dot s = dropWhile (\<lambda>c. c = CHR ''.'') s"

text \<open>\<open>s.startswith(t)\<close> and \<open>t in s\<close> on texts.\<close>

fun startswith :: "string \<Rightarrow> string \<Rightarrow> bool" where
  "startswith s [] = True"
| "startswith [] (c # t) = False"
| "startswith (d # s) (c # t) = (d = c \<and> startswith s t)"

fun contains :: "string \<Rightarrow> string \<Rightarrow> bool" where
  "contains [] t = (t = [])"
| "contains (d # s) t = (startswith (d # s) t \<or> contains s t)"

text \<open>\<open>sep.join(xs)\<close>\<close>

fun join :: "string \<Rightarrow> string list \<Rightarrow> string" where
  "join sep [] = []"
| "join sep [x] = x"
| "join sep (x # y # xs) = x @ sep @ join sep (y # xs)"

text \<open>\<open>str(n)\<close> for a length.\<close>

definition digit_char :: "nat \<Rightarrow> char" where
  "digit_char d = ''0123456789'' ! d"

fun str_of_nat :: "nat \<Rightarrow> string" where
  "str_of_nat n = (if n < 10 then [digit_char n] else str_of_nat (n div 10) @ [digit_char (n mod 10)])"

section \<open>The environment of a call\<close>

text \<open>
  The three document engines.  \<open>engine_name\<close> is
  \<open>engine.__class__.__name__.replace('Engine', '')\<close>.
\<close>

datatype engine = OnlyOffice | LibreOffice | Fallback

fun engine_name :: "engine \<Rightarrow> string" where
  "engine_name OnlyOffice = ''OnlyOffice''"
| "engine_name LibreOffice = ''LibreOffice''"
| "engine_name Fallback = ''Fallback''"

text \<open>
  The keyword arguments of \<open>engine.convert\<close>: the fallback engine is called with
  \<open>(input_path, output_path, input_format, output_format)\<close>, the other two with
  \<open>(input_path, output_path, target_format, quality)\<close>.
\<close>

datatype engine_args =
    FallbackArgs string string string string
  | StandardArgs string string string string

text \<open>
  What one call of \<open>engine.convert\<close> does, seen from the router: the progress reports
  \<open>(p, m)\<close> it passes to the callback it was given, in order, and then either the pair it
  returns or the exception (an \<open>Exception\<close>, given by its \<open>str\<close>) it raises.
\<close>

datatype engine_outcome = Returned bool string | Raised string

record engine_run =
  emitted :: "(rat \<times> string) list"
  outcome :: engine_outcome

text \<open>The result of \<open>filetype.guess\<close>: it raises, returns \<open>None\<close>, or a kind with a MIME type.\<close>

datatype guess_result = GuessRaises | GuessNone | GuessMime string

text \<open>
  Everything outside the program that a call reads: the file system, \<open>pathlib\<close> (whose
  results depend on the operating system), \<open>filetype\<close>, and the engines' backends.
  Each operation of the model takes the environment it runs in, so the environment may
  change between two operations.
\<close>

record platform =
  path_exists :: "string \<Rightarrow> bool"
  path_suffix :: "string \<Rightarrow> string"
  path_name :: "string \<Rightarrow> string"
  path_stem :: "string \<Rightarrow> string"
  path_join :: "string \<Rightarrow> string \<Rightarrow> string"
  makedirs :: "string \<Rightarrow> string option"
  filetype_guess :: "string \<Rightarrow> guess_result"
  engine_available :: "engine \<Rightarrow> bool"
  engine_convert :: "engine \<Rightarrow> engine_args \<Rightarrow> engine_run"

text \<open>
  \<open>path_exists\<close> is \<open>os.path.exists\<close>; \<open>path_suffix\<close>, \<open>path_name\<close> and \<open>path_stem\<close> are
  \<open>Path(p).suffix\<close>, \<open>.name\<close> and \<open>.stem\<close>; \<open>path_join\<close> is \<open>os.path.join\<close>; \<open>makedirs d\<close>
  is \<open>os.makedirs(d, exist_ok=True)\<close>, \<open>None\<close> when it returns and \<open>Some (str e)\<close> when it
  raises; \<open>engine_available e\<close> is \<open>e.is_available()\<close>.
\<close>

section \<open>DocumentConverter\<close>

definition supported_input :: "string list" where
  "supported_input = [''pdf'', ''docx'', ''doc'', ''odt'', ''rtf'', ''txt'', ''xlsx'', ''xls'',
     ''ods'', ''pptx'', ''ppt'', ''odp'']"

definition supported_output :: "string list" where
  "supported_output = [''pdf'', ''docx'', ''odt'', ''rtf'', ''txt'', ''xlsx'', ''ods'', ''pptx'',
     ''odp'', ''html'']"

text \<open>\<open>engine_capabilities\<close>: the input and the output formats of each engine.\<close>

fun capabilities_input :: "engine \<Rightarrow> string list" where
  "capabilities_input OnlyOffice = [''txt'', ''docx'', ''doc'', ''odt'', ''rtf'', ''xlsx'', ''xls'',
     ''ods'', ''pptx'', ''ppt'', ''odp'']"
| "capabilities_input LibreOffice = [''docx'', ''doc'', ''odt'', ''rtf'', ''txt'', ''xlsx'', ''xls'',
     ''ods'', ''pptx'', ''ppt'', ''odp'']"
| "capabilities_input Fallback = [''pdf'', ''docx'', ''txt'', ''rtf'']"

fun capabilities_output :: "engine \<Rightarrow> string list" where
  "capabilities_output OnlyOffice = [''pdf'', ''docx'', ''odt'', ''rtf'', ''txt'', ''html'', ''xlsx'',
     ''ods'', ''pptx'', ''odp'']"
| "capabilities_output LibreOffice = [''pdf'', ''docx'', ''odt'', ''rtf'', ''txt'', ''xlsx'', ''ods'',
     ''pptx'', ''odp'', ''html'']"
| "capabilities_output Fallback = [''txt'', ''docx'', ''pdf'', ''html'']"

text \<open>
  \<open>_can_use_onlyoffice\<close>, \<open>_can_use_libreoffice\<close> and \<open>_can_use_fallback\<close> are the same test
  on the three rows of \<open>engine_capabilities\<close>.
\<close>

definition can_use :: "engine \<Rightarrow> string \<Rightarrow> string \<Rightarrow> bool" where
  "can_use e input_ext fmt =
     (input_ext \<in> set (capabilities_input e) \<and> fmt \<in> set (capabilities_output e))"

text \<open>
  The engines' own \<open>can_convert\<close>.  \<open>OnlyOfficeEngine.can_convert\<close> tests its two format
  lists, \<open>FallbackEngine.can_convert\<close> the keys of its \<open>conversion_matrix\<close>;
  \<open>LibreOfficeEngine\<close> defines no \<open>can_convert\<close>.
\<close>

definition onlyoffice_input_formats :: "string list" where
  "onlyoffice_input_formats = [''txt'', ''docx'', ''doc'', ''odt'', ''rtf'', ''xlsx'', ''xls'', ''ods'',
     ''pptx'', ''ppt'', ''odp'']"

definition onlyoffice_output_formats :: "string list" where
  "onlyoffice_output_formats = [''pdf'', ''docx'', ''odt'', ''rtf'', ''txt'', ''html'', ''xlsx'', ''ods'',
     ''pptx'', ''odp'']"

definition fallback_conversion_matrix :: "(string \<times> string) list" where
  "fallback_conversion_matrix = [(''pdf'', ''txt''), (''pdf'', ''docx''), (''docx'', ''txt''),
     (''docx'', ''pdf''), (''txt'', ''pdf''), (''txt'', ''docx''), (''rtf'', ''txt''), (''rtf'', ''docx'')]"

fun engine_can_convert :: "engine \<Rightarrow> string \<Rightarrow> string \<Rightarrow> bool option" where
  "engine_can_convert OnlyOffice a b =
     Some (lower a \<in> set onlyoffice_input_formats \<and> lower b \<in> set onlyoffice_output_formats)"
| "engine_can_convert Fallback a b = Some ((lower a, lower b) \<in> set fallback_conversion_matrix)"
| "engine_can_convert LibreOffice a b = None"

text \<open>
  The state of a \<open>DocumentConverter\<close> is its \<open>conversion_methods\<close> dictionary, built once by
  \<open>__init__\<close> from the engines that are available then; the format tables are constants.
\<close>

record document_converter =
  conversion_methods :: "(string \<times> string) \<rightharpoonup> engine list"

definition available_engines :: "platform \<Rightarrow> engine list" where
  "available_engines p =
     (if engine_available p OnlyOffice then [OnlyOffice] else []) @
     (if engine_available p LibreOffice then [LibreOffice] else [])"

definition methods_table :: "engine list \<Rightarrow> ((string \<times> string) \<times> engine list) list" where
  "methods_table av =
     [((''txt'', ''pdf''), av),
      ((''docx'', ''pdf''), av),
      ((''doc'', ''pdf''), av),
      ((''odt'', ''pdf''), av),
      ((''rtf'', ''pdf''), av),
      ((''xlsx'', ''pdf''), av),
      ((''xls'', ''pdf''), av),
      ((''ods'', ''pdf''), av),
      ((''pptx'', ''pdf''), av),
      ((''ppt'', ''pdf''), av),
      ((''odp'', ''pdf''), av),
      ((''pdf'', ''docx''), [Fallback]),
      ((''pdf'', ''txt''), [Fallback]),
      ((''docx'', ''txt''), av @ [Fallback]),
      ((''txt'', ''docx''), av @ [Fallback])]"

definition new_document_converter :: "platform \<Rightarrow> document_converter" where
  "new_document_converter p =
     \<lparr>conversion_methods = map_of (methods_table (available_engines p))\<rparr>"

definition input_extension :: "platform \<Rightarrow> string \<Rightarrow> string" where
  "input_extension p file_path = lstrip_dot (lower (path_suffix p file_path))"

definition is_supported_input :: "platform \<Rightarrow> string \<Rightarrow> bool" where
  "is_supported_input p file_path = (input_extension p file_path \<in> set supported_input)"

definition is_supported_output :: "string \<Rightarrow> bool" where
  "is_supported_output format_name = (lower format_name \<in> set supported_output)"

definition can_convert :: "string \<Rightarrow> string \<Rightarrow> bool" where
  "can_convert input_format output_format =
     (lower input_format \<in> set supported_input \<and> lower output_format \<in> set supported_output)"

text \<open>The messages of \<open>DocumentConverter.convert\<close>.\<close>

definition msg_bad_input :: "string \<Rightarrow> string" where
  "msg_bad_input suffix = ''Formato de entrada '' @ nao @ '' suportado: '' @ suffix"

definition msg_bad_output :: "string \<Rightarrow> string" where
  "msg_bad_output fmt = ''Formato de sa'' @ i_acute @ ''da '' @ nao @ '' suportado: '' @ fmt"

definition msg_not_found :: "string \<Rightarrow> string" where
  "msg_not_found file_path = ''Arquivo '' @ nao @ '' encontrado: '' @ file_path"

definition msg_starting :: string where
  "msg_starting = ''Iniciando '' @ conversao @ '' de documento...''"

definition msg_unsupported :: "string \<Rightarrow> string \<Rightarrow> string" where
  "msg_unsupported input_ext fmt =
     Conversao @ '' de '' @ input_ext @ '' para '' @ fmt @ '' '' @ nao
       @ '' suportada pelos engines dispon'' @ i_acute @ ''veis''"

definition msg_trying :: "string \<Rightarrow> string" where
  "msg_trying name = ''Tentando '' @ conversao @ '' com '' @ name @ ''...''"

definition msg_done :: "string \<Rightarrow> string" where
  "msg_done name = Conversao @ '' conclu'' @ i_acute @ ''da com '' @ name @ ''!''"

definition msg_success :: "string \<Rightarrow> string \<Rightarrow> string" where
  "msg_success name message =
     ''Documento convertido com sucesso usando '' @ name @ '': '' @ message"

definition msg_failed_next :: "string \<Rightarrow> string" where
  "msg_failed_next name = name @ '' falhou, tentando '' @ proximo_metodo @ ''...''"

definition msg_error_in :: "string \<Rightarrow> string \<Rightarrow> string" where
  "msg_error_in name err = ''Erro no '' @ name @ '': '' @ err"

definition msg_error_next :: "string \<Rightarrow> string" where
  "msg_error_next name = ''Erro no '' @ name @ '', tentando '' @ proximo_metodo @ ''...''"

definition msg_all_failed :: "string \<Rightarrow> string" where
  "msg_all_failed last_error =
     ''Falha em todos os m'' @ e_acute @ ''todos de '' @ conversao @ ''. '' @ U_acute
       @ ''ltimo erro: '' @ last_error"

text \<open>
  The candidate list of \<open>convert\<close>: the entry of \<open>conversion_methods\<close>
  (\<open>.get(conversion_key, [])\<close>), and when that is empty the older selection by
  \<open>engine_capabilities\<close>.
\<close>

definition engines_to_try :: "document_converter \<Rightarrow> string \<Rightarrow> string \<Rightarrow> engine list" where
  "engines_to_try dc input_ext fmt =
     (let listed = (case conversion_methods dc (input_ext, fmt) of None \<Rightarrow> [] | Some es \<Rightarrow> es)
      in if listed = [] then
           (if can_use OnlyOffice input_ext fmt then [OnlyOffice, LibreOffice]
            else if can_use LibreOffice input_ext fmt then [LibreOffice]
            else if can_use Fallback input_ext fmt then [Fallback]
            else [])
         else listed)"

text \<open>The request that the attempts of one \<open>convert\<close> call share.\<close>

record request =
  rq_input_path :: string
  rq_output_path :: string
  rq_input_ext :: string
  rq_target_format :: string
  rq_quality :: string

definition args_for :: "engine \<Rightarrow> request \<Rightarrow> engine_args" where
  "args_for e rq =
     (if e = Fallback
      then FallbackArgs (rq_input_path rq) (rq_output_path rq) (rq_input_ext rq) (rq_target_format rq)
      else StandardArgs (rq_input_path rq) (rq_output_path rq) (rq_target_format rq) (rq_quality rq))"

text \<open>
  A call \<open>progress_callback(p, m)\<close> guarded by \<open>if progress_callback\<close>: \<open>cb\<close> says whether the
  caller gave a callback.  The delivered reports are collected in order.
\<close>

definition emit :: "bool \<Rightarrow> rat \<times> string \<Rightarrow> (rat \<times> string) list" where
  "emit cb ev = (if cb then [ev] else [])"

text \<open>
  The callback handed to an engine,
  \<open>lambda p, m: progress_callback(current_progress + p * progress_step / 100, m)\<close>.
  Python's \<open>/\<close> is the division of floats; the model divides exactly.  On the integer
  reports that the engines of the source emit, the rounded result is the exact one when
  that is an integer and is no integer otherwise, and rounding is monotone; so the order
  of the delivered values, and whether one of them is 100, are the same in both.
\<close>

definition scale :: "int \<Rightarrow> int \<Rightarrow> rat \<times> string \<Rightarrow> rat \<times> string" where
  "scale current_progress progress_step ev =
     (of_int current_progress + fst ev * of_int progress_step / 100, snd ev)"

definition forward :: "bool \<Rightarrow> int \<Rightarrow> int \<Rightarrow> (rat \<times> string) list \<Rightarrow> (rat \<times> string) list" where
  "forward cb current_progress progress_step evs =
     (if cb then map (scale current_progress progress_step) evs else [])"

text \<open>
  The result of a \<open>convert\<close> call: the returned pair, the reports delivered to the caller's
  progress callback, and the engines whose \<open>convert\<close> was invoked, both in order.
\<close>

type_synonym conversion = "(bool \<times> string) \<times> (rat \<times> string) list \<times> engine list"

definition returned :: "conversion \<Rightarrow> bool \<times> string" where
  "returned c = fst c"

definition delivered :: "conversion \<Rightarrow> (rat \<times> string) list" where
  "delivered c = fst (snd c)"

definition invoked :: "conversion \<Rightarrow> engine list" where
  "invoked c = snd (snd c)"

text \<open>
  The loop \<open>for i, engine in enumerate(engines_to_try)\<close>, from index \<open>i\<close> on: \<open>n\<close> is
  \<open>len(engines_to_try)\<close>, the last argument the candidates not yet tried.
\<close>

fun try_engines ::
  "platform \<Rightarrow> bool \<Rightarrow> request \<Rightarrow> int \<Rightarrow> int \<Rightarrow> int \<Rightarrow> int \<Rightarrow> string \<Rightarrow> engine list \<Rightarrow> conversion"
where
  "try_engines p cb rq n progress_step i current_progress last_error [] =
     ((False, msg_all_failed last_error), [], [])"
| "try_engines p cb rq n progress_step i current_progress last_error (e # es) =
     (let run = engine_convert p e (args_for e rq);
          before = emit cb (of_int current_progress, msg_trying (engine_name e))
                   @ forward cb current_progress progress_step (emitted run)
      in case outcome run of
           Returned success message \<Rightarrow>
             if success
             then ((True, msg_success (engine_name e) message),
                   before @ emit cb (100, msg_done (engine_name e)), [e])
             else
               (let rest = try_engines p cb rq n progress_step (i + 1)
                             (current_progress + progress_step) message es
                in (returned rest,
                    before
                    @ emit (cb \<and> i < n - 1)
                        (of_int (current_progress + progress_step), msg_failed_next (engine_name e))
                    @ delivered rest,
                    e # invoked rest))
         | Raised err \<Rightarrow>
               (let rest = try_engines p cb rq n progress_step (i + 1)
                             (current_progress + progress_step)
                             (msg_error_in (engine_name e) err) es
                in (returned rest,
                    before
                    @ emit (cb \<and> i < n - 1)
                        (of_int (current_progress + progress_step), msg_error_next (engine_name e))
                    @ delivered rest,
                    e # invoked rest)))"

text \<open>
  \<open>DocumentConverter.convert\<close>.  The library calls and the callback are taken to return
  normally, so the outer \<open>except\<close> has nothing to catch.
\<close>

definition convert ::
  "document_converter \<Rightarrow> platform \<Rightarrow> bool \<Rightarrow> string \<Rightarrow> string \<Rightarrow> string \<Rightarrow> string \<Rightarrow> conversion"
where
  "convert dc p cb in_path out_path fmt qual =
     (if \<not> is_supported_input p in_path
      then ((False, msg_bad_input (path_suffix p in_path)), [], [])
      else if \<not> is_supported_output fmt
      then ((False, msg_bad_output fmt), [], [])
      else if \<not> path_exists p in_path
      then ((False, msg_not_found in_path), [], [])
      else
        (let input_ext = input_extension p in_path;
             started = emit cb (10, msg_starting);
             engines = engines_to_try dc input_ext fmt
         in if engines = []
            then ((False, msg_unsupported input_ext fmt), started, [])
            else
              (let rq = \<lparr>rq_input_path = in_path, rq_output_path = out_path,
                         rq_input_ext = input_ext, rq_target_format = fmt, rq_quality = qual\<rparr>;
                   rest = try_engines p cb rq (int (length engines)) (80 div int (length engines))
                            0 20 [] engines
               in (returned rest, started @ delivered rest, invoked rest))))"

section \<open>MainConverter\<close>

text \<open>
  A \<open>ConversionJob\<close>.  The status is the text the source stores, so that the set of
  statuses a job can take is a property of the operations and not of the type.
\<close>

record conversion_job =
  input_path :: string
  output_path :: string
  target_format :: string
  quality :: string
  status :: string
  progress :: int
  error_message :: string

definition new_job :: "string \<Rightarrow> string \<Rightarrow> string \<Rightarrow> string \<Rightarrow> conversion_job" where
  "new_job in_path out_path fmt qual =
     \<lparr>input_path = in_path, output_path = out_path, target_format = fmt, quality = qual,
      status = ''pending'', progress = 0, error_message = []\<rparr>"

text \<open>
  The state of a \<open>MainConverter\<close>.  The video, audio and image converters have no state
  that the orchestrator reads beyond their constant format lists.  The two callbacks are
  observers: they are taken to return normally, and what they are sent is not part of the
  state.
\<close>

record main_converter =
  jobs :: "conversion_job list"
  current_job_index :: nat
  is_converting :: bool
  document_converter :: document_converter

definition new_main_converter :: "platform \<Rightarrow> main_converter" where
  "new_main_converter p =
     \<lparr>jobs = [], current_job_index = 0, is_converting = False,
      document_converter = new_document_converter p\<rparr>"

definition extension_mapping :: "(string \<times> string) list" where
  "extension_mapping =
     [(''mp4'', ''video''), (''avi'', ''video''), (''mkv'', ''video''), (''mov'', ''video''),
      (''wmv'', ''video''), (''flv'', ''video''), (''webm'', ''video''), (''m4v'', ''video''),
      (''mpg'', ''video''), (''mpeg'', ''video''), (''3gp'', ''video''), (''ogv'', ''video''),
      (''mp3'', ''audio''), (''wav'', ''audio''), (''flac'', ''audio''), (''aac'', ''audio''),
      (''ogg'', ''audio''), (''m4a'', ''audio''), (''wma'', ''audio''), (''opus'', ''audio''),
      (''aiff'', ''audio''), (''au'', ''audio''), (''ra'', ''audio''),
      (''jpg'', ''image''), (''jpeg'', ''image''), (''png'', ''image''), (''gif'', ''image''),
      (''bmp'', ''image''), (''tiff'', ''image''), (''tif'', ''image''), (''webp'', ''image''),
      (''ico'', ''image''), (''svg'', ''image''), (''psd'', ''image''), (''raw'', ''image''),
      (''pdf'', ''document''), (''doc'', ''document''), (''docx'', ''document''),
      (''odt'', ''document''), (''rtf'', ''document''), (''txt'', ''document''),
      (''html'', ''document''), (''htm'', ''document''), (''xls'', ''document''),
      (''xlsx'', ''document''), (''ods'', ''document''), (''csv'', ''document''),
      (''ppt'', ''document''), (''pptx'', ''document''), (''odp'', ''document'')]"

definition detect_file_type :: "platform \<Rightarrow> string \<Rightarrow> string" where
  "detect_file_type p file_path =
     (case map_of extension_mapping (input_extension p file_path) of
        Some file_type \<Rightarrow> file_type
      | None \<Rightarrow>
          (case filetype_guess p file_path of
             GuessRaises \<Rightarrow> ''unknown''
           | GuessNone \<Rightarrow> ''unknown''
           | GuessMime mime_type \<Rightarrow>
               if startswith mime_type ''video/'' then ''video''
               else if startswith mime_type ''audio/'' then ''audio''
               else if startswith mime_type ''image/'' then ''image''
               else if startswith mime_type ''application/''
                     \<and> list_ex (contains mime_type) [''pdf'', ''word'', ''document'', ''text'']
               then ''document''
               else ''unknown''))"

datatype converter = VideoConverter | AudioConverter | ImageConverter | DocumentConverter

fun class_name :: "converter \<Rightarrow> string" where
  "class_name VideoConverter = ''VideoConverter''"
| "class_name AudioConverter = ''AudioConverter''"
| "class_name ImageConverter = ''ImageConverter''"
| "class_name DocumentConverter = ''DocumentConverter''"

definition get_converter_for_type :: "string \<Rightarrow> converter option" where
  "get_converter_for_type file_type =
     map_of [(''video'', VideoConverter), (''audio'', AudioConverter),
             (''image'', ImageConverter), (''document'', DocumentConverter)] file_type"

text \<open>
  \<open>get_supported_formats\<close>: the input and output lists of the four converters, in the order
  of the dictionary.  The cache holds these constants.
\<close>

definition get_supported_formats :: "(string list \<times> string list) list" where
  "get_supported_formats =
     [([''mp4'', ''avi'', ''mkv'', ''mov'', ''wmv'', ''flv'', ''webm'', ''m4v'', ''3gp'', ''ogv''],
       [''mp4'', ''avi'', ''mkv'', ''mov'', ''wmv'', ''flv'', ''webm'']),
      ([''mp3'', ''wav'', ''flac'', ''aac'', ''ogg'', ''m4a'', ''wma'', ''opus'', ''aiff'', ''au''],
       [''mp3'', ''wav'', ''flac'', ''aac'', ''ogg'', ''m4a'', ''opus'']),
      ([''jpg'', ''jpeg'', ''png'', ''gif'', ''bmp'', ''tiff'', ''tif'', ''webp'', ''ico'', ''ppm'',
        ''pgm'', ''pbm''],
       [''jpg'', ''jpeg'', ''png'', ''gif'', ''bmp'', ''tiff'', ''webp'', ''ico'']),
      (supported_input, supported_output)]"

definition is_format_supported :: "string \<Rightarrow> string \<Rightarrow> bool" where
  "is_format_supported input_format output_format =
     (if lower input_format = lower output_format then False
      else list_ex (\<lambda>category. lower input_format \<in> set (map lower (fst category))
                                \<and> lower output_format \<in> set (map lower (snd category)))
             get_supported_formats)"

text \<open>
  \<open>add_conversion_job\<close> returns the new state and the boolean.  The library calls are
  taken to return normally, so its \<open>except\<close> has nothing to catch.
\<close>

definition add_conversion_job ::
  "platform \<Rightarrow> main_converter \<Rightarrow> string \<Rightarrow> string \<Rightarrow> string \<Rightarrow> string \<Rightarrow> main_converter \<times> bool"
where
  "add_conversion_job p s in_path output_dir fmt qual =
     (if \<not> path_exists p in_path then (s, False)
      else if detect_file_type p in_path = ''unknown'' then (s, False)
      else if \<not> is_format_supported (input_extension p in_path) fmt then (s, False)
      else
        (let output_filename = path_stem p in_path @ ''.'' @ lower fmt;
             job = new_job in_path (path_join p output_dir output_filename) fmt qual
         in (s\<lparr>jobs := jobs s @ [job]\<rparr>, True)))"

definition clear_jobs :: "main_converter \<Rightarrow> main_converter" where
  "clear_jobs s = (if \<not> is_converting s then s\<lparr>jobs := [], current_job_index := 0\<rparr> else s)"

text \<open>The messages of \<open>validate_conversion_setup\<close>.\<close>

definition a_acute :: string where "a_acute = [CHR 0xC3, CHR 0xA1]"
definition quote :: string where "quote = [CHR 0x27]"
definition Nao :: string where "Nao = ''N'' @ a_tilde @ ''o''"
definition possivel :: string where "possivel = ''poss'' @ i_acute @ ''vel''"
definition serao_ignorados :: string where "serao_ignorados = ''ser'' @ a_tilde @ ''o ignorados: ''"

definition msg_no_files :: string where
  "msg_no_files = ''Nenhum arquivo selecionado para '' @ conversao"

definition msg_choose_dir :: string where
  "msg_choose_dir = ''Selecione uma pasta de destino''"

definition msg_dir_error :: "string \<Rightarrow> string" where
  "msg_dir_error err =
     Nao @ '' foi '' @ possivel @ '' criar/acessar a pasta de destino: '' @ err"

definition msg_missing :: "string list \<Rightarrow> string" where
  "msg_missing missing_files = ''Arquivos '' @ nao @ '' encontrados: '' @ join '', '' missing_files"

definition msg_same_format :: "string \<Rightarrow> string list \<Rightarrow> string" where
  "msg_same_format fmt same_format_files =
     Nao @ '' '' @ e_acute @ '' '' @ possivel
       @ '' converter arquivos para o mesmo formato. Arquivos j'' @ a_acute @ '' em ''
       @ upper fmt @ '': '' @ join '', '' same_format_files"

definition msg_none_convertible :: "string \<Rightarrow> string list \<Rightarrow> string" where
  "msg_none_convertible fmt unsupported_files =
     ''Nenhum arquivo pode ser convertido para '' @ upper fmt @ ''. Arquivos '' @ nao
       @ '' suportados: '' @ join '', '' unsupported_files"

definition msg_output_unsupported :: "string \<Rightarrow> string" where
  "msg_output_unsupported fmt =
     ''Formato de sa'' @ i_acute @ ''da '' @ quote @ fmt @ quote @ '' '' @ nao @ '' ''
       @ e_acute @ '' suportado''"

definition msg_unsupported_entry :: "string \<Rightarrow> string \<Rightarrow> string \<Rightarrow> string" where
  "msg_unsupported_entry name ext fmt = name @ '' ('' @ ext @ '' '' @ arrow @ '' '' @ fmt @ '')''"

definition and_more :: "string list \<Rightarrow> string" where
  "and_more files =
     (if length files > 2 then '' e mais '' @ str_of_nat (length files - 2) @ '' arquivo(s)''
      else [])"

definition warn_same_format :: "string \<Rightarrow> string list \<Rightarrow> string" where
  "warn_same_format fmt same_format_files =
     str_of_nat (length same_format_files) @ '' arquivo(s) j'' @ a_acute @ '' est'' @ a_tilde
       @ ''o em '' @ upper fmt @ '' e '' @ serao_ignorados @ join '', '' (take 2 same_format_files)
       @ and_more same_format_files"

definition warn_unsupported :: "string list \<Rightarrow> string" where
  "warn_unsupported unsupported_files =
     str_of_nat (length unsupported_files) @ '' arquivo(s) '' @ nao
       @ '' podem ser convertidos e '' @ serao_ignorados @ join '', '' (take 2 unsupported_files)
       @ and_more unsupported_files"

definition msg_valid :: string where
  "msg_valid = ''Configura'' @ c_cedil @ a_tilde @ ''o v'' @ a_acute @ ''lida''"

text \<open>
  The loop of \<open>validate_conversion_setup\<close> over the files: the three lists
  \<open>(convertible_files, unsupported_files, same_format_files)\<close> it builds.
\<close>

fun classify ::
  "platform \<Rightarrow> string \<Rightarrow> string list \<Rightarrow> string list \<times> string list \<times> string list" where
  "classify p fmt [] = ([], [], [])"
| "classify p fmt (file_path # rest) =
     (case classify p fmt rest of (convertible_files, unsupported_files, same_format_files) \<Rightarrow>
        if detect_file_type p file_path = ''unknown''
        then (convertible_files, path_name p file_path # unsupported_files, same_format_files)
        else if lower (input_extension p file_path) = lower fmt
        then (convertible_files, unsupported_files, path_name p file_path # same_format_files)
        else if is_format_supported (input_extension p file_path) fmt
        then (file_path # convertible_files, unsupported_files, same_format_files)
        else (convertible_files,
              msg_unsupported_entry (path_name p file_path) (input_extension p file_path) fmt
                # unsupported_files,
              same_format_files))"

definition validate_conversion_setup ::
  "platform \<Rightarrow> string list \<Rightarrow> string \<Rightarrow> string \<Rightarrow> bool \<times> string" where
  "validate_conversion_setup p file_paths output_dir fmt =
     (if file_paths = [] then (False, msg_no_files)
      else if output_dir = [] \<or> output_dir = msg_choose_dir then (False, msg_choose_dir)
      else case makedirs p output_dir of
        Some err \<Rightarrow> (False, msg_dir_error err)
      | None \<Rightarrow>
          (let missing_files = filter (\<lambda>f. \<not> path_exists p f) file_paths
           in if missing_files \<noteq> [] then (False, msg_missing missing_files)
              else case classify p fmt file_paths of
                (convertible_files, unsupported_files, same_format_files) \<Rightarrow>
                  if convertible_files = [] then
                    (if same_format_files \<noteq> [] then (False, msg_same_format fmt same_format_files)
                     else if unsupported_files \<noteq> []
                     then (False, msg_none_convertible fmt unsupported_files)
                     else (False, msg_output_unsupported fmt))
                  else
                    (let warnings =
                           (if same_format_files \<noteq> [] then [warn_same_format fmt same_format_files]
                            else [])
                           @ (if unsupported_files \<noteq> [] then [warn_unsupported unsupported_files]
                              else [])
                     in if warnings \<noteq> [] then (True, ''Aviso: '' @ join ''; '' warnings)
                        else (True, msg_valid))))"

text \<open>\<open>start_conversion\<close> returns the new state and the boolean.\<close>

definition add_all ::
  "platform \<Rightarrow> main_converter \<Rightarrow> string list \<Rightarrow> string \<Rightarrow> string \<Rightarrow> string \<Rightarrow> main_converter" where
  "add_all p s file_paths output_dir fmt qual =
     foldl (\<lambda>s' file_path. fst (add_conversion_job p s' file_path output_dir fmt qual)) s file_paths"

definition start_conversion ::
  "platform \<Rightarrow> main_converter \<Rightarrow> string list \<Rightarrow> string \<Rightarrow> string \<Rightarrow> string \<Rightarrow> main_converter \<times> bool"
where
  "start_conversion p s file_paths output_dir fmt qual =
     (if is_converting s then (s, False)
      else if \<not> fst (validate_conversion_setup p file_paths output_dir fmt) then (s, False)
      else
        (let s' = add_all p (clear_jobs s) file_paths output_dir fmt qual
         in if jobs s' = [] then (s', False)
            else (s'\<lparr>is_converting := True, current_job_index := 0\<rparr>, True)))"

text \<open>The messages of \<open>process_next_job\<close>.\<close>

definition msg_unknown_type :: "string \<Rightarrow> string" where
  "msg_unknown_type name = ''Tipo de arquivo '' @ nao @ '' suportado: '' @ name"

definition msg_no_converter :: "string \<Rightarrow> string" where
  "msg_no_converter file_type = ''Conversor '' @ nao @ '' encontrado para tipo: '' @ file_type"

definition msg_cannot_convert :: "string \<Rightarrow> string \<Rightarrow> string \<Rightarrow> string" where
  "msg_cannot_convert ext fmt file_type =
     Conversao @ '' '' @ ext @ '' '' @ arrow @ '' '' @ fmt @ '' '' @ nao
       @ '' suportada pelo conversor '' @ file_type"

definition msg_error_during :: "string \<Rightarrow> string" where
  "msg_error_during err = ''Erro durante a '' @ conversao @ '': '' @ err"

text \<open>
  \<open>str(e)\<close> of the \<open>AttributeError\<close> that \<open>converter.can_convert\<close> raises on a converter
  whose class defines no \<open>can_convert\<close>.
\<close>

definition attribute_error :: "string \<Rightarrow> string" where
  "attribute_error cls =
     quote @ cls @ quote @ '' object has no attribute '' @ quote @ ''can_convert'' @ quote"

text \<open>
  The \<open>try\<close> block of \<open>process_next_job\<close>: \<open>(success, message)\<close> and the engines invoked.
  Of the four converter classes only \<open>DocumentConverter\<close> defines \<open>can_convert\<close>; on the
  other three the attribute lookup raises, the \<open>except\<close> of \<open>process_next_job\<close> catches it,
  and their \<open>convert\<close> is not reached.
\<close>

definition run_job ::
  "document_converter \<Rightarrow> platform \<Rightarrow> conversion_job \<Rightarrow> (bool \<times> string) \<times> engine list" where
  "run_job dc p job =
     (let file_type = detect_file_type p (input_path job)
      in if file_type = ''unknown''
         then ((False, msg_unknown_type (path_name p (input_path job))), [])
         else case get_converter_for_type file_type of
           None \<Rightarrow> ((False, msg_no_converter file_type), [])
         | Some DocumentConverter \<Rightarrow>
             (let ext = input_extension p (input_path job)
              in if \<not> can_convert ext (target_format job)
                 then ((False, msg_cannot_convert ext (target_format job) file_type), [])
                 else
                   (let c = convert dc p True (input_path job) (output_path job)
                              (target_format job) (quality job)
                    in (returned c, invoked c)))
         | Some other \<Rightarrow> ((False, msg_error_during (attribute_error (class_name other))), []))"

definition finish_conversion :: "main_converter \<Rightarrow> main_converter" where
  "finish_conversion s = s\<lparr>is_converting := False\<rparr>"

text \<open>
  \<open>process_next_job\<close> returns the new state, the pair \<open>(success, has_more_jobs)\<close> and the
  engines invoked during the call.
\<close>

definition process_next_job ::
  "platform \<Rightarrow> main_converter \<Rightarrow> main_converter \<times> (bool \<times> bool) \<times> engine list" where
  "process_next_job p s =
     (if \<not> is_converting s \<or> current_job_index s \<ge> length (jobs s) then (s, (False, False), [])
      else
        (let current_job = (jobs s ! current_job_index s)\<lparr>status := ''processing''\<rparr>;
             r = run_job (document_converter s) p current_job;
             success = fst (fst r);
             message = snd (fst r);
             finished = (if success then current_job\<lparr>status := ''completed'', progress := 100\<rparr>
                         else current_job\<lparr>status := ''failed'', error_message := message\<rparr>);
             s' = s\<lparr>jobs := (jobs s)[current_job_index s := finished],
                     current_job_index := current_job_index s + 1\<rparr>;
             has_more_jobs = current_job_index s' < length (jobs s')
         in ((if \<not> has_more_jobs then finish_conversion s' else s'),
             (success, has_more_jobs), snd r)))"

definition stop_conversion :: "main_converter \<Rightarrow> main_converter" where
  "stop_conversion s = (if is_converting s then s\<lparr>is_converting := False\<rparr> else s)"

record summary =
  total :: nat
  completed :: nat
  failed :: nat
  pending :: nat
  processing :: nat
  summary_is_converting :: bool

definition count_status :: "string \<Rightarrow> conversion_job list \<Rightarrow> nat" where
  "count_status st js = length (filter (\<lambda>j. status j = st) js)"

definition get_conversion_summary :: "main_converter \<Rightarrow> summary" where
  "get_conversion_summary s =
     \<lparr>total = length (jobs s),
      completed = count_status ''completed'' (jobs s),
      failed = count_status ''failed'' (jobs s),
      pending = count_status ''pending'' (jobs s),
      processing = count_status ''processing'' (jobs s),
      summary_is_converting = is_converting s\<rparr>"

text \<open>
  The operations a caller can apply to the orchestrator, each in the environment of its
  call, and a sequence of them.
\<close>

datatype operation =
    Start platform "string list" string string string
  | AddJob platform string string string string
  | ProcessNext platform
  | Stop
  | Clear

fun apply_operation :: "main_converter \<Rightarrow> operation \<Rightarrow> main_converter" where
  "apply_operation s (Start p file_paths output_dir fmt qual) =
     fst (start_conversion p s file_paths output_dir fmt qual)"
| "apply_operation s (AddJob p in_path output_dir fmt qual) =
     fst (add_conversion_job p s in_path output_dir fmt qual)"
| "apply_operation s (ProcessNext p) = fst (process_next_job p s)"
| "apply_operation s Stop = stop_conversion s"
| "apply_operation s Clear = clear_jobs s"

definition run_operations :: "main_converter \<Rightarrow> operation list \<Rightarrow> main_converter" where
  "run_operations s ops = foldl apply_operation s ops"

section \<open>The vocabulary of the properties\<close>

text \<open>
  The request of a \<open>convert\<close> call, and what a candidate does with it: whether its
  \<open>convert\<close> returns success, the message it returns, and the message the router records
  when it fails (the returned message, or \<open>Erro no <engine>: <exception>\<close> when it raises).
\<close>

definition request_of :: "platform \<Rightarrow> string \<Rightarrow> string \<Rightarrow> string \<Rightarrow> string \<Rightarrow> request" where
  "request_of p in_path out_path fmt qual =
     \<lparr>rq_input_path = in_path, rq_output_path = out_path,
      rq_input_ext = input_extension p in_path, rq_target_format = fmt, rq_quality = qual\<rparr>"

definition engine_succeeds :: "platform \<Rightarrow> request \<Rightarrow> engine \<Rightarrow> bool" where
  "engine_succeeds p rq e =
     (case outcome (engine_convert p e (args_for e rq)) of
        Returned success message \<Rightarrow> success | Raised err \<Rightarrow> False)"

definition returned_message :: "platform \<Rightarrow> request \<Rightarrow> engine \<Rightarrow> string" where
  "returned_message p rq e =
     (case outcome (engine_convert p e (args_for e rq)) of
        Returned success message \<Rightarrow> message | Raised err \<Rightarrow> [])"

definition failure_message :: "platform \<Rightarrow> request \<Rightarrow> engine \<Rightarrow> string" where
  "failure_message p rq e =
     (case outcome (engine_convert p e (args_for e rq)) of
        Returned success message \<Rightarrow> message | Raised err \<Rightarrow> msg_error_in (engine_name e) err)"

text \<open>
  The percentages of a list of progress reports.  An engine reports in order when its
  percentages are non-decreasing and lie between 0 and 100.
\<close>

definition percents :: "(rat \<times> string) list \<Rightarrow> rat list" where
  "percents evs = map fst evs"


text \<open>A list of percentages that is non-decreasing and lies between two bounds.\<close>

definition ranged :: "rat \<Rightarrow> rat \<Rightarrow> rat list \<Rightarrow> bool" where
  "ranged lo hi xs = (sorted xs \<and> list_all (\<lambda>x. lo \<le> x \<and> x \<le> hi) xs)"



section \<open>Sample environments\<close>

text \<open>
  \<open>pathlib\<close> and \<open>os.path.join\<close> on POSIX paths without a trailing slash, and environments
  built on them: the files that exist, the engines that are available, and what each
  engine does when it is called.
\<close>

definition posix_name :: "string \<Rightarrow> string" where
  "posix_name s = rev (takeWhile (\<lambda>c. c \<noteq> CHR ''/'') (rev s))"

definition posix_suffix :: "string \<Rightarrow> string" where
  "posix_suffix s =
     (let name = posix_name s; r = takeWhile (\<lambda>c. c \<noteq> CHR ''.'') (rev name)
      in if length r = length name \<or> r = [] \<or> length r + 1 = length name then []
         else CHR ''.'' # rev r)"

definition posix_stem :: "string \<Rightarrow> string" where
  "posix_stem s = take (length (posix_name s) - length (posix_suffix s)) (posix_name s)"

definition posix_join :: "string \<Rightarrow> string \<Rightarrow> string" where
  "posix_join a b =
     (if startswith b ''/'' \<or> a = [] then b
      else if last a = CHR ''/'' then a @ b else a @ ''/'' @ b)"

definition posix_platform ::
  "string list \<Rightarrow> engine list \<Rightarrow> (engine \<Rightarrow> engine_run) \<Rightarrow> platform" where
  "posix_platform files engines runs =
     \<lparr>path_exists = (\<lambda>f. f \<in> set files), path_suffix = posix_suffix, path_name = posix_name,
      path_stem = posix_stem, path_join = posix_join, makedirs = (\<lambda>d. None),
      filetype_guess = (\<lambda>f. GuessNone), engine_available = (\<lambda>e. e \<in> set engines),
      engine_convert = (\<lambda>e args. runs e)\<rparr>"

definition run_fails :: "string \<Rightarrow> engine_run" where
  "run_fails m = \<lparr>emitted = [(10, ''working'')], outcome = Returned False m\<rparr>"

definition run_ok :: "string \<Rightarrow> engine_run" where
  "run_ok m = \<lparr>emitted = [(10, ''working''), (100, ''done'')], outcome = Returned True m\<rparr>"

definition run_raises :: "string \<Rightarrow> engine_run" where
  "run_raises m = \<lparr>emitted = [], outcome = Raised m\<rparr>"


definition office_platform :: platform where
  "office_platform = posix_platform [''report.docx''] [LibreOffice]
     (\<lambda>e. if e = Fallback then run_ok ''written'' else run_raises ''soffice crashed'')"


definition scan_platform :: platform where
  "scan_platform = posix_platform [''scan.pdf''] [OnlyOffice, LibreOffice] (\<lambda>e. run_ok ''written'')"



definition bare_platform :: platform where
  "bare_platform = posix_platform [''notes.docx'', ''scan.pdf''] [] (\<lambda>e. run_fails ''not installed'')"

text \<open>
  A batch of three documents, the environment in which all three exist and the one in
  which the second is missing, and the states of a run over the batch: started, after
  the first job, after the second job processed while its file is missing, and after the
  third.
\<close>

definition batch_files :: "string list" where
  "batch_files = [''a.docx'', ''b.docx'', ''c.docx'']"

definition batch_platform :: platform where
  "batch_platform = posix_platform batch_files [LibreOffice] (\<lambda>e. run_ok ''written'')"

definition batch_missing_platform :: platform where
  "batch_missing_platform = posix_platform [''a.docx'', ''c.docx''] [LibreOffice] (\<lambda>e. run_ok ''written'')"

definition batch_started :: main_converter where
  "batch_started = fst (start_conversion batch_platform (new_main_converter batch_platform)
     batch_files ''out'' ''pdf'' ''media'')"

definition batch_first_done :: main_converter where
  "batch_first_done = fst (process_next_job batch_platform batch_started)"

definition batch_second_done :: main_converter where
  "batch_second_done = fst (process_next_job batch_missing_platform batch_first_done)"

definition batch_third_done :: main_converter where
  "batch_third_done = fst (process_next_job batch_platform batch_second_done)"

section \<open>The attempts of a conversion\<close>

lemmas text_defs = lower_def lower_char_def upper_letters_def lower_letters_def lstrip_dot_def
lemmas posix_defs = posix_platform_def posix_suffix_def posix_name_def posix_stem_def posix_join_def
lemmas table_defs = supported_input_def supported_output_def methods_table_def
  available_engines_def new_document_converter_def can_use_def
lemmas convert_defs = is_supported_input_def is_supported_output_def input_extension_def
  engines_to_try_def request_of_def args_for_def engine_succeeds_def returned_message_def
  failure_message_def run_fails_def run_ok_def run_raises_def

lemmas eval_defs = text_defs posix_defs table_defs convert_defs convert_def emit_def forward_def
  scale_def percents_def Let_def

lemma returned_simp [simp]: "returned (r, d, c) = r"
  and delivered_simp [simp]: "delivered (r, d, c) = d"
  and invoked_simp [simp]: "invoked (r, d, c) = c"
  by (simp_all add: returned_def delivered_def invoked_def)



lemma invoked_prefix:
  "\<exists>k. invoked (try_engines p cb rq n st i cur le es) = take k es"
proof (induction es arbitrary: i cur le)
  case Nil
  then show ?case by simp
next
  case (Cons e es)
  show ?case
  proof (cases "outcome (engine_convert p e (args_for e rq))")
    case (Returned s m)
    show ?thesis
    proof (cases s)
      case True
      with Returned have "invoked (try_engines p cb rq n st i cur le (e # es)) = take 1 (e # es)"
        by (simp add: Let_def)
      then show ?thesis by blast
    next
      case False
      obtain k where "invoked (try_engines p cb rq n st (i + 1) (cur + st) m es) = take k es"
        using Cons.IH by blast
      with Returned False have "invoked (try_engines p cb rq n st i cur le (e # es)) = take (Suc k) (e # es)"
        by (simp add: Let_def)
      then show ?thesis by blast
    qed
  next
    case (Raised err)
    obtain k where "invoked (try_engines p cb rq n st (i + 1) (cur + st) (msg_error_in (engine_name e) err) es) = take k es"
      using Cons.IH by blast
    with Raised have "invoked (try_engines p cb rq n st i cur le (e # es)) = take (Suc k) (e # es)"
      by (simp add: Let_def)
    then show ?thesis by blast
  qed
qed


lemma methods_table_cases:
  "map_of (methods_table av) key = Some es \<Longrightarrow> es = av \<or> es = [Fallback] \<or> es = av @ [Fallback]"
  by (drule map_of_SomeD) (auto simp: methods_table_def)




lemma invoked_convert_cases:
  "invoked (convert dc p cb in_path out_path fmt qual) = [] \<or>
   (\<exists>k. invoked (convert dc p cb in_path out_path fmt qual)
      = take k (engines_to_try dc (input_extension p in_path) fmt))"
proof -
  obtain k where "invoked (try_engines p cb (request_of p in_path out_path fmt qual)
      (int (length (engines_to_try dc (input_extension p in_path) fmt)))
      (80 div int (length (engines_to_try dc (input_extension p in_path) fmt))) 0 20 []
      (engines_to_try dc (input_extension p in_path) fmt))
     = take k (engines_to_try dc (input_extension p in_path) fmt)"
    using invoked_prefix by blast
  then show ?thesis
    by (auto simp: convert_def Let_def request_of_def)
qed






text \<open>
  C3.  On an input that passes the validation, when the pair has no entry in
  \<open>conversion_methods\<close> and no row of \<open>engine_capabilities\<close> declares it, the call returns
  \<open>False\<close> with the message that the conversion is not supported, and invokes no engine.
\<close>

theorem convert_no_candidate:
  assumes "is_supported_input p in_path" and "is_supported_output fmt" and "path_exists p in_path"
    and "conversion_methods dc (input_extension p in_path, fmt) = None"
    and "\<forall>e. \<not> can_use e (input_extension p in_path) fmt"
  shows "returned (convert dc p cb in_path out_path fmt qual)
           = (False, msg_unsupported (input_extension p in_path) fmt) \<and>
         invoked (convert dc p cb in_path out_path fmt qual) = []"
  using assms by (simp add: convert_def engines_to_try_def Let_def)

theorem convert_no_candidate_witness:
  "returned (convert (new_document_converter scan_platform) scan_platform True ''scan.pdf''
      ''out/scan.odt'' ''odt'' ''media'') = (False, msg_unsupported ''pdf'' ''odt'') \<and>
   invoked (convert (new_document_converter scan_platform) scan_platform True ''scan.pdf''
      ''out/scan.odt'' ''odt'' ''media'') = []"
proof -
  let ?p = scan_platform
  have ext: "input_extension ?p ''scan.pdf'' = ''pdf''"
    by (simp add: scan_platform_def text_defs posix_defs input_extension_def)
  have h1: "is_supported_input ?p ''scan.pdf''"
    by (simp add: is_supported_input_def ext supported_input_def)
  have h2: "is_supported_output ''odt''"
    by (simp add: is_supported_output_def text_defs supported_output_def)
  have h3: "path_exists ?p ''scan.pdf''"
    by (simp add: scan_platform_def posix_platform_def)
  have h4: "conversion_methods (new_document_converter ?p) (input_extension ?p ''scan.pdf'', ''odt'') = None"
    unfolding ext by (simp add: new_document_converter_def methods_table_def)
  have h5: "\<forall>e. \<not> can_use e (input_extension ?p ''scan.pdf'') ''odt''"
  proof
    fix e show "\<not> can_use e (input_extension ?p ''scan.pdf'') ''odt''"
      unfolding ext by (cases e) (simp_all add: can_use_def)
  qed
  from convert_no_candidate [OF h1 h2 h3 h4 h5] ext show ?thesis by simp
qed

lemma invoked_subset:
  "set (invoked (convert dc p cb in_path out_path fmt qual))
     \<subseteq> set (engines_to_try dc (input_extension p in_path) fmt)"
  using invoked_convert_cases [of dc p cb in_path out_path fmt qual]
  by (auto dest: in_set_takeD)

lemma can_use_libreoffice: "can_use LibreOffice a b = can_use OnlyOffice a b"
  by (auto simp: can_use_def)

lemma listed_capable:
  assumes "(key, es) \<in> set (methods_table (available_engines p0))" "e \<in> set es"
  shows "can_use e (fst key) (snd key)"
proof -
  have av: "e' = OnlyOffice \<or> e' = LibreOffice" if "e' \<in> set (available_engines p0)" for e'
    using that by (auto simp: available_engines_def split: if_splits)
  from assms consider "snd key = ''pdf''" "fst key \<in> set (capabilities_input OnlyOffice)"
      "e \<in> set (available_engines p0)"
    | "key = (''pdf'', ''docx'')" "e = Fallback"
    | "key = (''pdf'', ''txt'')" "e = Fallback"
    | "key = (''docx'', ''txt'')" "e \<in> set (available_engines p0) \<or> e = Fallback"
    | "key = (''txt'', ''docx'')" "e \<in> set (available_engines p0) \<or> e = Fallback"
    by (auto simp: methods_table_def)
  then show ?thesis
  proof cases
    case 1
    with av [OF 1(3)] show ?thesis by (auto simp: can_use_def)
  next
    case 2
    then show ?thesis by (simp add: can_use_def)
  next
    case 3
    then show ?thesis by (simp add: can_use_def)
  next
    case 4
    with av [of e] show ?thesis by (auto simp: can_use_def)
  next
    case 5
    with av [of e] show ?thesis by (auto simp: can_use_def)
  qed
qed

lemma engines_to_try_capable:
  assumes "e \<in> set (engines_to_try (new_document_converter p0) ext fmt)"
  shows "can_use e ext fmt"
proof (cases "map_of (methods_table (available_engines p0)) (ext, fmt)")
  case None
  with assms show ?thesis
    by (auto simp: engines_to_try_def new_document_converter_def can_use_libreoffice split: if_splits)
next
  case (Some es)
  show ?thesis
  proof (cases "es = []")
    case True
    with Some assms show ?thesis
      by (auto simp: engines_to_try_def new_document_converter_def can_use_libreoffice split: if_splits)
  next
    case False
    with Some assms have "e \<in> set es"
      by (simp add: engines_to_try_def new_document_converter_def)
    from listed_capable [OF map_of_SomeD [OF Some] this] show ?thesis by simp
  qed
qed

lemma engines_to_try_available:
  assumes "conversion_methods (new_document_converter p0) (ext, fmt) = Some es" "es \<noteq> []"
    and "e \<in> set (engines_to_try (new_document_converter p0) ext fmt)" "e \<noteq> Fallback"
  shows "engine_available p0 e"
proof -
  from assms(1) have m: "map_of (methods_table (available_engines p0)) (ext, fmt) = Some es"
    by (simp add: new_document_converter_def)
  from assms(1-3) have "e \<in> set es" by (simp add: engines_to_try_def)
  with methods_table_cases [OF m] assms(4) have "e \<in> set (available_engines p0)" by auto
  then show ?thesis by (auto simp: available_engines_def split: if_splits)
qed

text \<open>
  C4 (as amended).  Every engine that a \<open>convert\<close> call invokes is declared capable of
  the pair by the router's \<open>engine_capabilities\<close>; and when the pair has a non-empty entry
  in \<open>conversion_methods\<close>, an invoked engine other than the fallback passed
  \<open>is_available\<close> when the converter was constructed.
\<close>

theorem invoked_engines_declared:
  assumes "e \<in> set (invoked (convert (new_document_converter p0) p cb in_path out_path fmt qual))"
  shows "can_use e (input_extension p in_path) fmt \<and>
    ((\<exists>es. conversion_methods (new_document_converter p0) (input_extension p in_path, fmt) = Some es
            \<and> es \<noteq> []) \<and> e \<noteq> Fallback \<longrightarrow> engine_available p0 e)"
  using assms invoked_subset engines_to_try_capable engines_to_try_available by blast

theorem invoked_engines_declared_witness:
  "can_use LibreOffice ''docx'' ''txt'' \<and> engine_available office_platform LibreOffice"
proof -
  have ext: "input_extension office_platform ''report.docx'' = ''docx''"
    by (simp add: office_platform_def text_defs posix_defs input_extension_def)
  have inv: "LibreOffice \<in> set (invoked (convert (new_document_converter office_platform)
      office_platform True ''report.docx'' ''out/report.txt'' ''txt'' ''media''))"
    by (simp add: office_platform_def eval_defs)
  have listed: "\<exists>es. conversion_methods (new_document_converter office_platform)
      (input_extension office_platform ''report.docx'', ''txt'') = Some es \<and> es \<noteq> []"
    unfolding ext by (simp add: table_defs)
  from invoked_engines_declared [OF inv] listed ext show ?thesis by simp
qed

text \<open>
  C4 as stated fails: availability is not checked at the attempt, and the engines' own
  \<open>can_convert\<close> is not consulted.  With no engine installed, a \<open>docx\<close> to \<open>html\<close> call
  invokes OnlyOffice and LibreOffice, and a \<open>pdf\<close> to \<open>html\<close> call invokes the fallback
  engine, whose \<open>can_convert\<close> rejects that pair.
\<close>

theorem invoked_unchecked_counterexample:
  "\<not> engine_available bare_platform OnlyOffice \<and>
   \<not> engine_available bare_platform LibreOffice \<and>
   invoked (convert (new_document_converter bare_platform) bare_platform True
      ''notes.docx'' ''out/notes.html'' ''html'' ''media'') = [OnlyOffice, LibreOffice] \<and>
   engine_can_convert Fallback ''pdf'' ''html'' = Some False \<and>
   \<not> engine_available bare_platform Fallback \<and>
   invoked (convert (new_document_converter bare_platform) bare_platform True
      ''scan.pdf'' ''out/scan.html'' ''html'' ''media'') = [Fallback]"
  by (simp add: bare_platform_def eval_defs fallback_conversion_matrix_def)

section \<open>The progress of a conversion\<close>

lemma ranged_Nil [simp]: "ranged lo hi []"
  by (simp add: ranged_def)

lemma ranged_single [simp]: "ranged lo hi [x] = (lo \<le> x \<and> x \<le> hi)"
  by (simp add: ranged_def)


lemma percents_Nil [simp]: "percents [] = []"
  by (simp add: percents_def)

lemma percents_append [simp]: "percents (xs @ ys) = percents xs @ percents ys"
  by (simp add: percents_def)

lemma percents_emit [simp]: "percents (emit b (x, m)) = (if b then [x] else [])"
  by (simp add: percents_def emit_def)

















section \<open>The orchestrator\<close>

lemma same_format_unsupported: "lower a = lower b \<Longrightarrow> \<not> is_format_supported a b"
  by (simp add: is_format_supported_def)

text \<open>
  C5.  When the two formats are equal up to letter case, \<open>is_format_supported\<close> is false,
  and \<open>add_conversion_job\<close> on a file with that extension and that target returns
  \<open>False\<close> and leaves the orchestrator, so its job list, unchanged.
\<close>

theorem same_format_rejected:
  assumes "lower a = lower b"
  shows "\<not> is_format_supported a b \<and>
    (\<forall>p s in_path output_dir qual. input_extension p in_path = a \<longrightarrow>
       add_conversion_job p s in_path output_dir b qual = (s, False))"
  using same_format_unsupported [OF assms] by (auto simp: add_conversion_job_def)

theorem same_format_rejected_witness:
  "\<not> is_format_supported ''pdf'' ''PDF'' \<and>
   add_conversion_job scan_platform (new_main_converter scan_platform) ''scan.pdf'' ''out'' ''PDF''
      ''media'' = (new_main_converter scan_platform, False)"
proof -
  have same: "lower ''pdf'' = lower ''PDF''" by code_simp
  have ext: "input_extension scan_platform ''scan.pdf'' = ''pdf''" by code_simp
  from same_format_rejected [OF same] ext show ?thesis by blast
qed

text \<open>
  C8.  While a run is in progress, \<open>start_conversion\<close> returns \<open>False\<close> and leaves the
  orchestrator unchanged, so the job list and the current job index stay as they were.
\<close>

theorem start_rejected_while_converting:
  assumes "is_converting s"
  shows "start_conversion p s file_paths output_dir fmt qual = (s, False)"
  using assms by (simp add: start_conversion_def)

theorem start_rejected_while_converting_witness:
  "is_converting batch_started \<and>
   start_conversion batch_platform batch_started [''c.docx''] ''out'' ''txt'' ''media''
     = (batch_started, False)"
proof -
  have h: "is_converting batch_started" by code_simp
  from start_rejected_while_converting [OF h] h show ?thesis by simp
qed

lemma add_conversion_job_cases:
  "fst (add_conversion_job p s f d fmt q) = s \<or>
   (\<exists>out. fst (add_conversion_job p s f d fmt q) = s\<lparr>jobs := jobs s @ [new_job f out fmt q]\<rparr>)"
  by (auto simp: add_conversion_job_def Let_def)

lemma add_all_shape:
  "\<exists>js. add_all p s fs d fmt q = s\<lparr>jobs := jobs s @ js\<rparr> \<and> (\<forall>j\<in>set js. status j = ''pending'')"
proof (induction fs arbitrary: s)
  case Nil
  have "add_all p s [] d fmt q = s\<lparr>jobs := jobs s @ []\<rparr>" by (simp add: add_all_def)
  then show ?case by fastforce
next
  case (Cons f fs)
  let ?s = "fst (add_conversion_job p s f d fmt q)"
  have step: "add_all p s (f # fs) d fmt q = add_all p ?s fs d fmt q"
    by (simp add: add_all_def)
  obtain js where js: "add_all p ?s fs d fmt q = ?s\<lparr>jobs := jobs ?s @ js\<rparr>"
      "\<forall>j\<in>set js. status j = ''pending''"
    using Cons.IH by blast
  from add_conversion_job_cases [of p s f d fmt q] show ?case
  proof
    assume "?s = s"
    with step js show ?thesis by auto
  next
    assume "\<exists>out. ?s = s\<lparr>jobs := jobs s @ [new_job f out fmt q]\<rparr>"
    then obtain out where out: "?s = s\<lparr>jobs := jobs s @ [new_job f out fmt q]\<rparr>" by blast
    have "add_all p s (f # fs) d fmt q = s\<lparr>jobs := jobs s @ (new_job f out fmt q # js)\<rparr>"
      using js(1) step by (simp add: out)
    moreover have "\<forall>j\<in>set (new_job f out fmt q # js). status j = ''pending''"
      using js(2) by (simp add: new_job_def)
    ultimately show ?thesis by blast
  qed
qed

lemma start_conversion_started:
  assumes "start_conversion p s fs d fmt q = (s1, True)"
  shows "is_converting s1" "current_job_index s1 = 0" "\<forall>j\<in>set (jobs s1). status j = ''pending''"
    "document_converter s1 = document_converter s"
proof -
  from assms have nc: "\<not> is_converting s"
    by (auto simp: start_conversion_def split: if_splits)
  obtain js where js: "add_all p (clear_jobs s) fs d fmt q = (clear_jobs s)\<lparr>jobs := jobs (clear_jobs s) @ js\<rparr>"
    "\<forall>j\<in>set js. status j = ''pending''"
    using add_all_shape by blast
  from assms nc have s1: "s1 = (add_all p (clear_jobs s) fs d fmt q)\<lparr>is_converting := True, current_job_index := 0\<rparr>"
    by (auto simp: start_conversion_def Let_def split: if_splits)
  show "is_converting s1" "current_job_index s1 = 0" by (simp_all add: s1)
  show "\<forall>j\<in>set (jobs s1). status j = ''pending''"
    using js nc by (simp add: s1 clear_jobs_def)
  show "document_converter s1 = document_converter s"
    using js nc by (simp add: s1 clear_jobs_def)
qed

lemma process_next_job_idle:
  "\<not> is_converting s \<Longrightarrow> process_next_job p s = (s, (False, False), [])"
  by (simp add: process_next_job_def)

lemma process_next_job_active:
  assumes "is_converting s" "current_job_index s < length (jobs s)"
    and "process_next_job p s = (s', (ok, has_more), calls)"
  shows "length (jobs s') = length (jobs s)"
    and "current_job_index s' = Suc (current_job_index s)"
    and "is_converting s' = (Suc (current_job_index s) < length (jobs s))"
    and "status (jobs s' ! current_job_index s) = (if ok then ''completed'' else ''failed'')"
    and "k \<noteq> current_job_index s \<Longrightarrow> jobs s' ! k = jobs s ! k"
    and "document_converter s' = document_converter s"
    and "ok = fst (fst (run_job (document_converter s) p
                 ((jobs s ! current_job_index s)\<lparr>status := ''processing''\<rparr>)))"
    and "calls = snd (run_job (document_converter s) p
                 ((jobs s ! current_job_index s)\<lparr>status := ''processing''\<rparr>))"
  using assms
  by (auto simp: process_next_job_def Let_def finish_conversion_def split: if_splits)


lemma run_idle:
  "\<not> is_converting s \<Longrightarrow> run_operations s (map ProcessNext ps) = s"
  by (induction ps) (simp_all add: run_operations_def process_next_job_idle)

lemma batch_start:
  "start_conversion batch_platform (new_main_converter batch_platform) batch_files ''out'' ''pdf'' ''media''
     = (batch_started, True)"
proof -
  have "snd (start_conversion batch_platform (new_main_converter batch_platform) batch_files
      ''out'' ''pdf'' ''media'')"
    by code_simp
  then show ?thesis by (simp add: batch_started_def prod_eq_iff)
qed

lemma batch_length: "length (jobs batch_started) = 3"
  by code_simp

lemma batch_first:
  "process_next_job batch_platform batch_started
     = (batch_first_done, (True, True), [LibreOffice])"
proof -
  have "snd (process_next_job batch_platform batch_started) = ((True, True), [LibreOffice])"
    by code_simp
  then show ?thesis by (simp add: batch_first_done_def prod_eq_iff)
qed

text \<open>
  C7.  In a run of three jobs, when \<open>stop_conversion\<close> is called after the first
  \<open>process_next_job\<close>: the first job is completed or failed and keeps that status, the
  second and third are pending, the run is not converting, and every later
  \<open>process_next_job\<close> returns \<open>(False, False)\<close>, invokes no engine and leaves the state
  as it is, however often it is called.
\<close>

theorem stop_between_jobs:
  assumes "start_conversion p0 s0 file_paths output_dir fmt qual = (s1, True)"
    and "length (jobs s1) = 3"
    and "process_next_job p1 s1 = (s2, r, calls)"
  shows "status (jobs (stop_conversion s2) ! 0) \<in> {''completed'', ''failed''} \<and>
         status (jobs (stop_conversion s2) ! 1) = ''pending'' \<and>
         status (jobs (stop_conversion s2) ! 2) = ''pending'' \<and>
         jobs (stop_conversion s2) = jobs s2 \<and>
         \<not> is_converting (stop_conversion s2) \<and>
         (\<forall>p. process_next_job p (stop_conversion s2) = (stop_conversion s2, (False, False), [])) \<and>
         (\<forall>ps. run_operations (stop_conversion s2) (map ProcessNext ps) = stop_conversion s2)"
proof -
  note st = start_conversion_started [OF assms(1)]
  obtain ok has_more where r: "r = (ok, has_more)" by (cases r)
  from st(2) assms(2) have idx: "current_job_index s1 < length (jobs s1)" by simp
  note pn = process_next_job_active [OF st(1) idx assms(3) [unfolded r]]
  have j0: "status (jobs s2 ! 0) \<in> {''completed'', ''failed''}"
    using pn(4) st(2) by simp
  have "jobs s2 ! 1 = jobs s1 ! 1" "jobs s2 ! 2 = jobs s1 ! 2"
    using pn(5) [of 1] pn(5) [of 2] st(2) by simp_all
  moreover have "jobs s1 ! 1 \<in> set (jobs s1)" "jobs s1 ! 2 \<in> set (jobs s1)"
    using assms(2) by simp_all
  ultimately have j12: "status (jobs s2 ! 1) = ''pending''" "status (jobs s2 ! 2) = ''pending''"
    using st(3) by simp_all
  have stopped: "\<not> is_converting (stop_conversion s2)" "jobs (stop_conversion s2) = jobs s2"
    by (simp_all add: stop_conversion_def)
  from j0 j12 stopped process_next_job_idle [OF stopped(1)] run_idle [OF stopped(1)]
  show ?thesis by simp
qed

theorem stop_between_jobs_witness:
  "status (jobs (stop_conversion batch_first_done) ! 0) = ''completed'' \<and>
   status (jobs (stop_conversion batch_first_done) ! 1) = ''pending'' \<and>
   status (jobs (stop_conversion batch_first_done) ! 2) = ''pending'' \<and>
   \<not> is_converting (stop_conversion batch_first_done) \<and>
   run_operations (stop_conversion batch_first_done)
     (map ProcessNext [batch_platform, batch_platform]) = stop_conversion batch_first_done"
proof -
  have "status (jobs (stop_conversion batch_first_done) ! 0) = ''completed''"
    by code_simp
  with stop_between_jobs [OF batch_start batch_length batch_first] show ?thesis by blast
qed









lemma start_missing_file:
  assumes "\<exists>f\<in>set fs. \<not> path_exists p f"
  shows "start_conversion p s fs d fmt q = (s, False)"
proof -
  from assms have "filter (\<lambda>f. \<not> path_exists p f) fs \<noteq> []"
    by (simp add: filter_empty_conv)
  then have "\<not> fst (validate_conversion_setup p fs d fmt)"
    by (simp add: validate_conversion_setup_def Let_def split: option.splits)
  then show ?thesis by (simp add: start_conversion_def)
qed

lemma run_job_missing:
  assumes "\<not> path_exists p (input_path job)"
  shows "\<not> fst (fst (run_job dc p job))" and "snd (run_job dc p job) = []"
  using assms
  by (auto simp: run_job_def convert_def Let_def split: option.splits converter.splits)

lemma three_elements: "length xs = 3 \<Longrightarrow> xs = [xs ! 0, xs ! 1, xs ! 2]"
  by (auto simp: list_eq_iff_nth_eq less_Suc_eq numeral_3_eq_3 numeral_2_eq_2)

lemma job_goes_missing:
  assumes "start_conversion p0 s0 file_paths output_dir fmt qual = (s1, True)"
    and "length (jobs s1) = 3"
    and "process_next_job p1 s1 = (s2, (True, more1), calls1)"
    and "\<not> path_exists p2 (input_path (jobs s1 ! 1))"
    and "process_next_job p2 s2 = (s3, r2, calls2)"
    and "process_next_job p3 s3 = (s4, (True, more3), calls3)"
  shows "calls2 = [] \<and> map status (jobs s4) = [''completed'', ''failed'', ''completed''] \<and>
         completed (get_conversion_summary s4) = 2 \<and> failed (get_conversion_summary s4) = 1 \<and>
         \<not> is_converting s4"
proof -
  note st = start_conversion_started [OF assms(1)]
  from st(2) assms(2) have i1: "current_job_index s1 < length (jobs s1)" by simp
  note a = process_next_job_active [OF st(1) i1 assms(3)]
  from a(1-3) assms(2) st(2) have c2: "is_converting s2" and i2: "current_job_index s2 < length (jobs s2)"
    and n2: "current_job_index s2 = 1" "length (jobs s2) = 3"
    by simp_all
  obtain ok2 more2 where r2: "r2 = (ok2, more2)" by (cases r2)
  note b = process_next_job_active [OF c2 i2 assms(5) [unfolded r2]]
  have "jobs s2 ! 1 = jobs s1 ! 1" using a(5) [of 1] st(2) by simp
  then have missing: "\<not> path_exists p2 (input_path ((jobs s2 ! current_job_index s2)\<lparr>status := ''processing''\<rparr>))"
    using assms(4) n2 by simp
  from b(7) run_job_missing(1) [OF missing] have ok2: "\<not> ok2" by simp
  from b(8) run_job_missing(2) [OF missing] have calls2: "calls2 = []" by simp
  from b(1-3) n2 have c3: "is_converting s3" and i3: "current_job_index s3 < length (jobs s3)"
    and n3: "current_job_index s3 = 2" "length (jobs s3) = 3"
    by simp_all
  note c = process_next_job_active [OF c3 i3 assms(6)]
  from c(1-3) n3 have n4: "length (jobs s4) = 3" and halted: "\<not> is_converting s4" by simp_all
  have s2_0: "status (jobs s2 ! 0) = ''completed''"
    using a(4) st(2) by simp
  have s3_0: "jobs s3 ! 0 = jobs s2 ! 0"
    using b(5) [of 0] n2 by simp
  have s3_1: "status (jobs s3 ! 1) = ''failed''"
    using b(4) ok2 n2 by simp
  have s4_0: "jobs s4 ! 0 = jobs s3 ! 0" and s4_1: "jobs s4 ! 1 = jobs s3 ! 1"
    using c(5) [of 0] c(5) [of 1] n3 by simp_all
  have j0: "status (jobs s4 ! 0) = ''completed''"
    by (simp only: s4_0 s3_0 s2_0)
  have j1: "status (jobs s4 ! 1) = ''failed''"
    by (simp only: s4_1 s3_1)
  have j2: "status (jobs s4 ! 2) = ''completed''"
    using c(4) n3 by simp
  have js: "jobs s4 = [jobs s4 ! 0, jobs s4 ! 1, jobs s4 ! 2]"
    using three_elements [OF n4] .
  have m: "map status (jobs s4) = [''completed'', ''failed'', ''completed'']"
    by (subst js) (simp only: list.map j0 j1 j2)
  have cnt: "count_status st (jobs s4) = length (filter (\<lambda>x. x = st) (map status (jobs s4)))" for st
    by (simp add: count_status_def filter_map comp_def)
  from calls2 m halted show ?thesis
    by (simp add: get_conversion_summary_def cnt)
qed

text \<open>
  C6 (as amended).  When one of the files given to \<open>start_conversion\<close> does not exist,
  the call returns \<open>False\<close> and leaves the orchestrator unchanged: no job is created and no
  run starts.  When a run of three jobs was started and the file of the second job is
  missing once that job is processed, while the first and the third job succeed, the
  second job is processed without an engine being invoked, the statuses end as completed,
  failed, completed, the summary counts two completed and one failed, and the run is over.
\<close>

theorem missing_file_handling:
  "((\<exists>f\<in>set file_paths. \<not> path_exists p0 f) \<longrightarrow>
      start_conversion p0 s0 file_paths output_dir fmt qual = (s0, False)) \<and>
   (start_conversion p0 s0 file_paths output_dir fmt qual = (s1, True) \<and> length (jobs s1) = 3 \<and>
    process_next_job p1 s1 = (s2, (True, more1), calls1) \<and>
    \<not> path_exists p2 (input_path (jobs s1 ! 1)) \<and>
    process_next_job p2 s2 = (s3, r2, calls2) \<and>
    process_next_job p3 s3 = (s4, (True, more3), calls3) \<longrightarrow>
      calls2 = [] \<and> map status (jobs s4) = [''completed'', ''failed'', ''completed''] \<and>
      completed (get_conversion_summary s4) = 2 \<and> failed (get_conversion_summary s4) = 1 \<and>
      \<not> is_converting s4)"
proof (rule conjI)
  show "(\<exists>f\<in>set file_paths. \<not> path_exists p0 f) \<longrightarrow>
      start_conversion p0 s0 file_paths output_dir fmt qual = (s0, False)"
    using start_missing_file by blast
next
  show "start_conversion p0 s0 file_paths output_dir fmt qual = (s1, True) \<and> length (jobs s1) = 3 \<and>
    process_next_job p1 s1 = (s2, (True, more1), calls1) \<and>
    \<not> path_exists p2 (input_path (jobs s1 ! 1)) \<and>
    process_next_job p2 s2 = (s3, r2, calls2) \<and>
    process_next_job p3 s3 = (s4, (True, more3), calls3) \<longrightarrow>
      calls2 = [] \<and> map status (jobs s4) = [''completed'', ''failed'', ''completed''] \<and>
      completed (get_conversion_summary s4) = 2 \<and> failed (get_conversion_summary s4) = 1 \<and>
      \<not> is_converting s4"
  proof (rule impI)
    assume a: "start_conversion p0 s0 file_paths output_dir fmt qual = (s1, True) \<and> length (jobs s1) = 3 \<and>
      process_next_job p1 s1 = (s2, (True, more1), calls1) \<and>
      \<not> path_exists p2 (input_path (jobs s1 ! 1)) \<and>
      process_next_job p2 s2 = (s3, r2, calls2) \<and>
      process_next_job p3 s3 = (s4, (True, more3), calls3)"
    show "calls2 = [] \<and> map status (jobs s4) = [''completed'', ''failed'', ''completed''] \<and>
      completed (get_conversion_summary s4) = 2 \<and> failed (get_conversion_summary s4) = 1 \<and>
      \<not> is_converting s4"
      using a by (elim conjE) (rule job_goes_missing)
  qed
qed

theorem missing_file_handling_witness:
  "start_conversion batch_missing_platform (new_main_converter batch_missing_platform) batch_files
      ''out'' ''pdf'' ''media'' = (new_main_converter batch_missing_platform, False) \<and>
   snd (snd (process_next_job batch_missing_platform batch_first_done)) = [] \<and>
   map status (jobs batch_third_done) = [''completed'', ''failed'', ''completed''] \<and>
   completed (get_conversion_summary batch_third_done) = 2 \<and>
   failed (get_conversion_summary batch_third_done) = 1 \<and>
   \<not> is_converting batch_third_done"
proof -
  have missing: "\<exists>f\<in>set batch_files. \<not> path_exists batch_missing_platform f"
    by code_simp
  have one: "start_conversion batch_missing_platform (new_main_converter batch_missing_platform)
      batch_files ''out'' ''pdf'' ''media'' = (new_main_converter batch_missing_platform, False)"
    using missing_file_handling [of batch_files batch_missing_platform
        "new_main_converter batch_missing_platform" "''out''" "''pdf''" "''media''"] missing
    by blast
  have gone: "\<not> path_exists batch_missing_platform (input_path (jobs batch_started ! 1))"
    by code_simp
  have second: "process_next_job batch_missing_platform batch_first_done
      = (batch_second_done, fst (snd (process_next_job batch_missing_platform batch_first_done)),
         snd (snd (process_next_job batch_missing_platform batch_first_done)))"
    by (simp add: batch_second_done_def)
  have "snd (process_next_job batch_platform batch_second_done) = ((True, False), [LibreOffice])"
    by code_simp
  then have third: "process_next_job batch_platform batch_second_done
      = (batch_third_done, (True, False), [LibreOffice])"
    by (simp add: batch_third_done_def prod_eq_iff)
  from missing_file_handling [of batch_files batch_platform "new_main_converter batch_platform"
      "''out''" "''pdf''" "''media''" batch_started batch_platform batch_first_done True
      "[LibreOffice]" batch_missing_platform batch_second_done
      "fst (snd (process_next_job batch_missing_platform batch_first_done))"
      "snd (snd (process_next_job batch_missing_platform batch_first_done))"
      batch_platform batch_third_done False "[LibreOffice]"]
    batch_start batch_length batch_first gone second third one
  show ?thesis by blast
qed

text \<open>
  C6 as stated fails: started with three files of which the second does not exist,
  \<open>start_conversion\<close> returns \<open>False\<close>, and the orchestrator has no job, so nothing is
  completed and nothing has failed, whatever is processed afterwards.
\<close>

theorem missing_file_run_counterexample:
  "\<not> path_exists batch_missing_platform ''b.docx'' \<and>
   path_exists batch_missing_platform ''a.docx'' \<and> path_exists batch_missing_platform ''c.docx'' \<and>
   snd (start_conversion batch_missing_platform (new_main_converter batch_missing_platform)
      [''a.docx'', ''b.docx'', ''c.docx''] ''out'' ''pdf'' ''media'') = False \<and>
   jobs (run_operations (new_main_converter batch_missing_platform)
      [Start batch_missing_platform [''a.docx'', ''b.docx'', ''c.docx''] ''out'' ''pdf'' ''media'',
       ProcessNext batch_missing_platform, ProcessNext batch_missing_platform,
       ProcessNext batch_missing_platform]) = [] \<and>
   completed (get_conversion_summary (run_operations (new_main_converter batch_missing_platform)
      [Start batch_missing_platform [''a.docx'', ''b.docx'', ''c.docx''] ''out'' ''pdf'' ''media'',
       ProcessNext batch_missing_platform, ProcessNext batch_missing_platform,
       ProcessNext batch_missing_platform])) = 0 \<and>
   failed (get_conversion_summary (run_operations (new_main_converter batch_missing_platform)
      [Start batch_missing_platform [''a.docx'', ''b.docx'', ''c.docx''] ''out'' ''pdf'' ''media'',
       ProcessNext batch_missing_platform, ProcessNext batch_missing_platform,
       ProcessNext batch_missing_platform])) = 0"
  by code_simp

end
